theory Spec2Isabelle
  imports Complex_Main "HOL-Library.Finite_Map"
begin

section \<open>Data model of \<open>app.py\<close>\<close>

text \<open>
  A finite double is modelled by the real number it denotes; \<open>pyfloat\<close> adds the three
  special values a float can also take. The result of an arithmetic operation on doubles
  is the exact result rounded to the nearest double (section on double arithmetic below).
\<close>

datatype pyfloat = Finite real | PosInf | NegInf | NaN

text \<open>
  A value as \<open>request.json\<close> delivers it and as the configuration dictionary stores it.
  A dictionary is a finite map; its keys are strings, as in JSON.
\<close>

datatype jvalue =
    JNull
  | JBool bool
  | JInt int
  | JFloat pyfloat
  | JString string
  | JList "jvalue list"
  | JDict "(string, jvalue) fmap"

datatype error = ValueError | TypeError | KeyError | BadRequest

type_synonym config = "(string, jvalue) fmap"

record bounding_box =
  box_x :: int
  box_y :: int
  box_width :: int
  box_height :: int

record center_point =
  center_x :: int
  center_y :: int

record detection =
  label :: string
  confidence :: real
  bounding_box :: bounding_box
  center :: center_point

section \<open>Double arithmetic\<close>

text \<open>
  The doubles of magnitude in \<open>[2 ^ e, 2 ^ (e + 1))\<close> are the multiples of
  \<open>2 ^ (e - 52)\<close>, and below \<open>2 ^ -1022\<close> the multiples of \<open>2 ^ -1074\<close>. An
  operation returns the multiple nearest to the exact result, and of two equally near ones
  the even multiple. This is the arithmetic of a result below the overflow threshold
  \<open>2 ^ 1024 - 2 ^ 970\<close> in magnitude; the source adds and multiplies numbers of
  \<open>[0, 1]\<close> only. A literal stands for the double nearest to it: 0.75 and 0.25 are
  doubles, 0.3 is not.
\<close>

definition round_half_even :: "real \<Rightarrow> int" where
  "round_half_even x =
     (let f = \<lfloor>x\<rfloor>; d = x - of_int f
      in if d < 1 / 2 then f else if 1 / 2 < d then f + 1 else if even f then f else f + 1)"

definition float_exponent :: "real \<Rightarrow> int" where
  "float_exponent x = max \<lfloor>log 2 \<bar>x\<bar>\<rfloor> (- 1022)"

definition float_ulp :: "real \<Rightarrow> real" where
  "float_ulp x = 2 powr real_of_int (float_exponent x - 52)"

definition round_double :: "real \<Rightarrow> real" where
  "round_double x = real_of_int (round_half_even (x / float_ulp x)) * float_ulp x"

definition float_add :: "real \<Rightarrow> real \<Rightarrow> real" where
  "float_add a b = round_double (a + b)"

definition float_mul :: "real \<Rightarrow> real \<Rightarrow> real" where
  "float_mul a b = round_double (a * b)"

section \<open>The random source\<close>

text \<open>
  The generator is the sequence of its draws. \<open>random.random()\<close> returns a multiple of
  \<open>2 ^ -53\<close> in \<open>[0, 1)\<close>; \<open>random.randint(a, b)\<close> returns an integer of \<open>[a, b]\<close>.
  Each draw is reduced into the range of the call that consumes it, so every sequence is a
  run of the library and every run of the library is a sequence. The source calls
  \<open>randint\<close> with literal bounds \<open>a \<le> b\<close> only.
\<close>

type_synonym rng = "nat \<Rightarrow> nat"

definition rng_next :: "rng \<Rightarrow> rng" where
  "rng_next g = (\<lambda>i. g (Suc i))"

definition random_random :: "rng \<Rightarrow> real \<times> rng" where
  "random_random g = (real (g 0 mod 2 ^ 53) / 2 ^ 53, rng_next g)"

definition random_randint :: "int \<Rightarrow> int \<Rightarrow> rng \<Rightarrow> int \<times> rng" where
  "random_randint a b g = (a + int (g 0 mod nat (b - a + 1)), rng_next g)"

section \<open>\<open>DetectionEngine._simulate_detection\<close>\<close>

text \<open>The body of the \<open>for\<close> loop: one record, its draws in the order the source makes them.\<close>

definition make_detection :: "rng \<Rightarrow> detection \<times> rng" where
  "make_detection g =
     (let (r, g1) = random_random g;
          (vx, g2) = random_randint 100 1400 g1;
          (vy, g3) = random_randint 100 800 g2;
          (vw, g4) = random_randint 0 100 g3;
          (vh, g5) = random_randint 0 100 g4;
          box = \<lparr>box_x = vx, box_y = vy, box_width = 100 + vw, box_height = 150 + vh\<rparr>
      in (\<lparr>label = ''person'',
           confidence = float_add 0.75 (float_mul r 0.25),
           bounding_box = box,
           center = \<lparr>center_x = box_x box + box_width box div 2,
                      center_y = box_y box + box_height box div 2\<rparr>\<rparr>, g5))"

fun gen_detections :: "nat \<Rightarrow> detection list \<Rightarrow> rng \<Rightarrow> detection list \<times> rng" where
  "gen_detections 0 detections g = (detections, g)"
| "gen_detections (Suc n) detections g =
     (let (d, g') = make_detection g in gen_detections n (detections @ [d]) g')"

definition simulate_detection :: "rng \<Rightarrow> detection list \<times> rng" where
  "simulate_detection g =
     (let (r, g1) = random_random g in
      if r < round_double 0.3 then
        (let (num_detections, g2) = random_randint 1 3 g1
         in gen_detections (nat num_detections) [] g2)
      else ([], g1))"

section \<open>Best target: \<open>max(detections, key=lambda x: x["confidence"])\<close>\<close>

text \<open>
  Python's \<open>max\<close> keeps the first item and replaces it only by an item whose key is
  strictly greater; on an empty sequence it raises ValueError.
\<close>

fun max_from :: "detection \<Rightarrow> detection list \<Rightarrow> detection" where
  "max_from best [] = best"
| "max_from best (d # ds) = max_from (if confidence best < confidence d then d else best) ds"

definition py_max :: "detection list \<Rightarrow> error + detection" where
  "py_max ds = (case ds of [] \<Rightarrow> Inl ValueError | d # rest \<Rightarrow> Inr (max_from d rest))"

section \<open>The builtin \<open>str.lower\<close>\<close>

text \<open>
  \<open>lower\<close> maps the letters \<open>A\<close> to \<open>Z\<close> to \<open>a\<close> to \<open>z\<close> and leaves every other
  character alone. The source only compares its result with \<open>true\<close>, and \<open>str.lower\<close>
  maps no character other than \<open>T\<close>, \<open>R\<close>, \<open>U\<close> and \<open>E\<close> to one of the letters of
  that word, so the comparison comes out the same on every string.
\<close>

definition lower_char :: "char \<Rightarrow> char" where
  "lower_char c =
     (case map_of (zip ''ABCDEFGHIJKLMNOPQRSTUVWXYZ'' ''abcdefghijklmnopqrstuvwxyz'') c of
        None \<Rightarrow> c | Some l \<Rightarrow> l)"

definition lower :: "string \<Rightarrow> string" where
  "lower s = map lower_char s"

section \<open>\<open>DetectionEngine\<close>: configuration\<close>

type_synonym environ = "string \<rightharpoonup> string"

definition bind :: "error + 'a \<Rightarrow> ('a \<Rightarrow> error + 'b) \<Rightarrow> error + 'b" where
  "bind r f = (case r of Inl e \<Rightarrow> Inl e | Inr v \<Rightarrow> f v)"

text \<open>
  \<open>float(os.environ.get(name, default))\<close>: the default is a float already; a value of the
  environment is a string and is parsed.
\<close>

definition env_float ::
  "(string \<Rightarrow> pyfloat option) \<Rightarrow> environ \<Rightarrow> string \<Rightarrow> real \<Rightarrow> error + jvalue" where
  "env_float parse_float env name fallback =
     (case env name of
        None \<Rightarrow> Inr (JFloat (Finite fallback))
      | Some s \<Rightarrow> (case parse_float s of None \<Rightarrow> Inl ValueError | Some f \<Rightarrow> Inr (JFloat f)))"

definition env_int ::
  "(string \<Rightarrow> int option) \<Rightarrow> environ \<Rightarrow> string \<Rightarrow> int \<Rightarrow> error + jvalue" where
  "env_int parse_int env name fallback =
     (case env name of
        None \<Rightarrow> Inr (JInt fallback)
      | Some s \<Rightarrow> (case parse_int s of None \<Rightarrow> Inl ValueError | Some i \<Rightarrow> Inr (JInt i)))"

text \<open>\<open>os.environ.get(name, default).lower() == 'true'\<close>\<close>

definition env_bool :: "environ \<Rightarrow> string \<Rightarrow> string \<Rightarrow> jvalue" where
  "env_bool env name fallback =
     JBool (lower (case env name of None \<Rightarrow> fallback | Some s \<Rightarrow> s) = ''true'')"

definition env_str :: "environ \<Rightarrow> string \<Rightarrow> string \<Rightarrow> jvalue" where
  "env_str env name fallback = JString (case env name of None \<Rightarrow> fallback | Some s \<Rightarrow> s)"

text \<open>
  The dictionary display evaluates its entries in order; the first entry that raises ends
  the call. The builtins \<open>float\<close> and \<open>int\<close> on a string are parameters:
  \<open>parse_float s\<close> and \<open>parse_int s\<close> are the value the builtin returns on \<open>s\<close>, and
  \<open>None\<close> where it raises ValueError.
\<close>

definition load_configuration ::
  "(string \<Rightarrow> pyfloat option) \<Rightarrow> (string \<Rightarrow> int option) \<Rightarrow> environ \<Rightarrow> error + config" where
  "load_configuration parse_float parse_int env =
     bind (env_float parse_float env ''CONFIDENCE_THRESHOLD'' 0.5) (\<lambda>confidence_threshold.
     bind (env_float parse_float env ''MOUSE_SENSITIVITY'' 1.0) (\<lambda>mouse_sensitivity.
     bind (env_int parse_int env ''DETECTION_INTERVAL'' 50) (\<lambda>detection_interval.
     bind (env_int parse_int env ''FOV'' 100) (\<lambda>fov.
     bind (env_int parse_int env ''SMOOTHING_STRENGTH'' 5) (\<lambda>smoothing_strength.
     bind (env_int parse_int env ''TRIGGER_DELAY'' 50) (\<lambda>trigger_delay.
     Inr (fmap_of_list
       [(''ConfidenceThreshold'', confidence_threshold),
        (''MouseSensitivity'', mouse_sensitivity),
        (''DetectionInterval'', detection_interval),
        (''EnableESP'', env_bool env ''ENABLE_ESP'' ''true''),
        (''EnableAntiRecoil'', env_bool env ''ENABLE_ANTI_RECOIL'' ''false''),
        (''TargetProcess'', env_str env ''TARGET_PROCESS'' ''''),
        (''FOV'', fov),
        (''EnableSmoothing'', env_bool env ''ENABLE_SMOOTHING'' ''true''),
        (''SmoothingStrength'', smoothing_strength),
        (''EnableTriggerBot'', env_bool env ''ENABLE_TRIGGER_BOT'' ''false''),
        (''TriggerDelay'', trigger_delay),
        (''ModelPath'', env_str env ''MODEL_PATH'' ''Models/yolov8n.onnx''),
        (''EnableDebugMode'', env_bool env ''ENABLE_DEBUG_MODE'' ''true'')])))))))"

text \<open>
  The defaults of the source, one per recognised option; they are the ones the
  specification documents.
\<close>

definition default_configuration :: config where
  "default_configuration = fmap_of_list
     [(''ConfidenceThreshold'', JFloat (Finite 0.5)),
      (''MouseSensitivity'', JFloat (Finite 1.0)),
      (''DetectionInterval'', JInt 50),
      (''EnableESP'', JBool True),
      (''EnableAntiRecoil'', JBool False),
      (''TargetProcess'', JString ''''),
      (''FOV'', JInt 100),
      (''EnableSmoothing'', JBool True),
      (''SmoothingStrength'', JInt 5),
      (''EnableTriggerBot'', JBool False),
      (''TriggerDelay'', JInt 50),
      (''ModelPath'', JString ''Models/yolov8n.onnx''),
      (''EnableDebugMode'', JBool True)]"

record engine =
  config :: config
  is_running :: bool
  detection_thread :: "nat option"

text \<open>\<open>DetectionEngine.__init__\<close>\<close>

definition new_engine ::
  "(string \<Rightarrow> pyfloat option) \<Rightarrow> (string \<Rightarrow> int option) \<Rightarrow> environ \<Rightarrow> error + engine" where
  "new_engine parse_float parse_int env =
     bind (load_configuration parse_float parse_int env)
       (\<lambda>c. Inr \<lparr>config = c, is_running = False, detection_thread = None\<rparr>)"

text \<open>
  \<open>self.config = {**self.config, **config}\<close>: unpacking with \<open>**\<close> needs a mapping and
  raises TypeError on any other value.
\<close>

definition save_configuration :: "engine \<Rightarrow> jvalue \<Rightarrow> error + engine" where
  "save_configuration self cfg =
     (case cfg of
        JDict d \<Rightarrow> Inr (self\<lparr>config := config self ++\<^sub>f d\<rparr>)
      | _ \<Rightarrow> Inl TypeError)"

section \<open>\<open>DetectionEngine\<close>: start and stop\<close>

text \<open>
  The threads of the process that run \<open>_detection_loop\<close>: \<open>live\<close> holds those whose call
  has not returned, \<open>created\<close> counts the threads started so far and names the next one.
\<close>

record threads =
  live :: "nat list"
  created :: nat

record result =
  success :: bool
  message :: string

definition start_detection :: "engine \<Rightarrow> threads \<Rightarrow> result \<times> engine \<times> threads" where
  "start_detection self t =
     (if is_running self then
        (\<lparr>success = False, message = ''Detection already running''\<rparr>, self, t)
      else
        (\<lparr>success = True, message = ''Detection started successfully''\<rparr>,
         self\<lparr>is_running := True, detection_thread := Some (created t)\<rparr>,
         t\<lparr>live := live t @ [created t], created := Suc (created t)\<rparr>))"

text \<open>
  \<open>join(timeout=1)\<close> waits for the thread for at most one second and changes nothing: a
  loop leaves \<open>live\<close> only by its own test of the flag (\<open>loop_test\<close> below), which may
  come during the wait or after it.
\<close>

definition stop_detection :: "engine \<Rightarrow> threads \<Rightarrow> result \<times> engine \<times> threads" where
  "stop_detection self t =
     (if \<not> is_running self then
        (\<lparr>success = False, message = ''Detection not running''\<rparr>, self, t)
      else
        (\<lparr>success = True, message = ''Detection stopped successfully''\<rparr>,
         self\<lparr>is_running := False\<rparr>, t))"

text \<open>
  \<open>while self.is_running:\<close> as thread \<open>tid\<close> evaluates it: on False the loop function
  returns and the thread ends, on True the thread runs the body once more.
\<close>

definition loop_test :: "nat \<Rightarrow> engine \<Rightarrow> threads \<Rightarrow> threads" where
  "loop_test tid self t = (if is_running self then t else t\<lparr>live := removeAll tid (live t)\<rparr>)"

datatype action = CallStart | CallStop | LoopTest nat

fun step :: "action \<Rightarrow> engine \<times> threads \<Rightarrow> engine \<times> threads" where
  "step CallStart (self, t) = snd (start_detection self t)"
| "step CallStop (self, t) = snd (stop_detection self t)"
| "step (LoopTest tid) (self, t) = (self, loop_test tid self t)"

fun run :: "action list \<Rightarrow> engine \<times> threads \<Rightarrow> engine \<times> threads" where
  "run [] s = s"
| "run (a # as) s = run as (step a s)"

text \<open>
  A schedule in which every call of \<open>start_detection\<close> that finds the engine stopped also
  finds no earlier loop alive.
\<close>

fun settled :: "action list \<Rightarrow> engine \<times> threads \<Rightarrow> bool" where
  "settled [] s = True"
| "settled (a # as) s =
     ((a = CallStart \<and> \<not> is_running (fst s) \<longrightarrow> live (snd s) = []) \<and> settled as (step a s))"

definition initial_threads :: threads where
  "initial_threads = \<lparr>live = [], created = 0\<rparr>"

section \<open>\<open>DetectionEngine._detection_loop\<close>: one iteration\<close>

record metrics =
  total_detections :: int
  last_detection_time :: "string option"
  average_processing_time :: jvalue
  successful_targets :: int

definition initial_metrics :: metrics where
  "initial_metrics =
     \<lparr>total_detections = 0, last_detection_time = None,
      average_processing_time = JInt 0, successful_targets = 0\<rparr>"

record detection_data =
  detections :: "detection list"
  best_target :: "detection option"
  processing_time :: real
  screenshot_size :: "int \<times> int"
  timestamp :: string

text \<open>
  \<open>c > v\<close> for a float \<open>c\<close> and a value \<open>v\<close> of the configuration: a number is compared
  by value (a bool is the integer 0 or 1), anything else raises TypeError.
\<close>

fun float_gt :: "real \<Rightarrow> jvalue \<Rightarrow> error + bool" where
  "float_gt c (JFloat (Finite v)) = Inr (v < c)"
| "float_gt c (JFloat PosInf) = Inr False"
| "float_gt c (JFloat NegInf) = Inr True"
| "float_gt c (JFloat NaN) = Inr False"
| "float_gt c (JInt i) = Inr (real_of_int i < c)"
| "float_gt c (JBool b) = Inr ((if b then 1 else 0) < c)"
| "float_gt c JNull = Inl TypeError"
| "float_gt c (JString s) = Inl TypeError"
| "float_gt c (JList xs) = Inl TypeError"
| "float_gt c (JDict d) = Inl TypeError"

definition subscript :: "config \<Rightarrow> string \<Rightarrow> error + jvalue" where
  "subscript d k = (case fmlookup d k of None \<Rightarrow> Inl KeyError | Some v \<Rightarrow> Inr v)"

text \<open>\<open>best_target["confidence"] > self.config["ConfidenceThreshold"]\<close>\<close>

definition above_threshold :: "config \<Rightarrow> detection \<Rightarrow> error + bool" where
  "above_threshold cfg best =
     bind (subscript cfg ''ConfidenceThreshold'') (\<lambda>threshold.
     float_gt (confidence best) threshold)"

text \<open>
  The lines under \<open># Select best target\<close>: the best record and the metrics, or the
  exception that the subscript or the comparison raises.
\<close>

definition select_best_target ::
  "config \<Rightarrow> detection list \<Rightarrow> metrics \<Rightarrow> error + (detection option \<times> metrics)" where
  "select_best_target cfg dets m =
     (if dets = [] then Inr (None, m)
      else
        bind (py_max dets) (\<lambda>best.
        bind (above_threshold cfg best) (\<lambda>above.
        Inr (Some best,
             if above then m\<lparr>successful_targets := successful_targets m + 1\<rparr> else m))))"

text \<open>
  The body of the loop. Its inputs are the configuration at the time of the iteration, the
  random source, the elapsed time in milliseconds and the two readings of
  \<open>datetime.now().isoformat()\<close>. The result is the metrics after the iteration, the event
  given to \<open>socketio.emit('detection_update', _)\<close>, if the iteration reached that line,
  and the exception the \<open>except\<close> clause logged otherwise. The sleep that ends the
  iteration follows the emit and touches neither.
\<close>

definition detection_loop_body ::
  "config \<Rightarrow> rng \<Rightarrow> real \<Rightarrow> string \<Rightarrow> string \<Rightarrow> metrics
     \<Rightarrow> metrics \<times> (error + detection_data) \<times> rng" where
  "detection_loop_body cfg g elapsed now1 now2 m =
     (let (dets, g') = simulate_detection g;
          m1 = m\<lparr>total_detections := total_detections m + int (length dets),
                 last_detection_time := Some now1,
                 average_processing_time := JFloat (Finite elapsed)\<rparr>
      in case select_best_target cfg dets m1 of
           Inl e \<Rightarrow> (m1, Inl e, g')
         | Inr (best, m2) \<Rightarrow>
             (m2,
              Inr \<lparr>detections = dets, best_target = best, processing_time = elapsed,
                   screenshot_size = (1920, 1080), timestamp = now2\<rparr>,
              g'))"




section \<open>The routes\<close>

record server =
  detection_engine :: "engine option"
  detection_metrics :: metrics
  bridge_processes :: "jvalue list"

text \<open>
  A request is its method and, for a POST, what \<open>request.json\<close> yields when the handler
  reads it: the parsed body, or the text of the exception it raises on a body it cannot
  parse.
\<close>

datatype request = GET | POST "string + jvalue"

record response =
  status_code :: nat
  body :: jvalue

record bridge_update =
  update_processes :: "jvalue list"
  update_timestamp :: string
  update_count :: nat

definition jsonify :: "(string \<times> jvalue) list \<Rightarrow> jvalue" where
  "jsonify kvs = JDict (fmap_of_list kvs)"

text \<open>The member of a JSON object under a key, as a client reads it.\<close>

definition member :: "jvalue \<Rightarrow> string \<Rightarrow> jvalue option" where
  "member v k = (case v of JDict d \<Rightarrow> fmlookup d k | _ \<Rightarrow> None)"

text \<open>
  \<open>/api/processes\<close>. The result is the response, the \<open>bridge_update\<close> event emitted, if
  any, and the state after the call; \<open>now\<close> is \<open>datetime.now().isoformat()\<close>.
\<close>

fun processes :: "request \<Rightarrow> string \<Rightarrow> server \<Rightarrow> response \<times> bridge_update option \<times> server" where
  "processes (POST (Inr data)) now s =
     (let bp = (case data of JList xs \<Rightarrow> xs | _ \<Rightarrow> []);
          s' = s\<lparr>bridge_processes := bp\<rparr>
      in (\<lparr>status_code = 200,
           body = jsonify [(''success'', JBool True),
                           (''message'', JString ''Processes received successfully''),
                           (''count'', JInt (int (length (bridge_processes s'))))]\<rparr>,
          Some \<lparr>update_processes = bridge_processes s', update_timestamp = now,
                update_count = length (bridge_processes s')\<rparr>,
          s'))"
| "processes (POST (Inl msg)) now s =
     (\<lparr>status_code = 400,
       body = jsonify [(''success'', JBool False), (''message'', JString msg)]\<rparr>, None, s)"
| "processes GET now s = (\<lparr>status_code = 200, body = JList (bridge_processes s)\<rparr>, None, s)"

definition metrics_json :: "metrics \<Rightarrow> jvalue" where
  "metrics_json m = jsonify
     [(''total_detections'', JInt (total_detections m)),
      (''last_detection_time'',
         (case last_detection_time m of None \<Rightarrow> JNull | Some t \<Rightarrow> JString t)),
      (''average_processing_time'', average_processing_time m),
      (''successful_targets'', JInt (successful_targets m))]"

text \<open>\<open>/api/status\<close>\<close>

definition status :: "server \<Rightarrow> response" where
  "status s =
     \<lparr>status_code = 200,
      body = jsonify
        [(''is_running'',
            JBool (case detection_engine s of None \<Rightarrow> False | Some e \<Rightarrow> is_running e)),
         (''metrics'', metrics_json (detection_metrics s)),
         (''configuration'',
            (case detection_engine s of None \<Rightarrow> JDict fmempty | Some e \<Rightarrow> JDict (config e))),
         (''bridge_processes'', JInt (int (length (bridge_processes s)))),
         (''bridge_connected'', JBool (0 < length (bridge_processes s)))]\<rparr>"

text \<open>
  \<open>if not detection_engine: detection_engine = DetectionEngine()\<close>, the first lines of
  the two handlers that need the engine.
\<close>

definition ensure_engine ::
  "(string \<Rightarrow> pyfloat option) \<Rightarrow> (string \<Rightarrow> int option) \<Rightarrow> environ \<Rightarrow> server
     \<Rightarrow> error + engine" where
  "ensure_engine parse_float parse_int env s =
     (case detection_engine s of
        Some e \<Rightarrow> Inr e
      | None \<Rightarrow> new_engine parse_float parse_int env)"

text \<open>
  \<open>/api/configuration\<close>. \<open>Inl\<close> is an exception that leaves the handler: the ValueError of
  a first \<open>DetectionEngine()\<close> or the error of \<open>request.json\<close>, which is read outside
  the \<open>try\<close>. The state comes back in either case, since the engine made on the way stays.
  \<open>describe\<close> is \<open>str\<close> on the exception caught around \<open>save_configuration\<close>.
\<close>

definition configuration ::
  "(string \<Rightarrow> pyfloat option) \<Rightarrow> (string \<Rightarrow> int option) \<Rightarrow> environ \<Rightarrow> (error \<Rightarrow> string)
     \<Rightarrow> request \<Rightarrow> server \<Rightarrow> (error + response) \<times> server" where
  "configuration parse_float parse_int env describe req s =
     (case ensure_engine parse_float parse_int env s of
        Inl err \<Rightarrow> (Inl err, s)
      | Inr e \<Rightarrow>
          (case req of
             GET \<Rightarrow> (Inr \<lparr>status_code = 200, body = JDict (config e)\<rparr>,
                      s\<lparr>detection_engine := Some e\<rparr>)
           | POST (Inl msg) \<Rightarrow> (Inl BadRequest, s\<lparr>detection_engine := Some e\<rparr>)
           | POST (Inr cfg) \<Rightarrow>
               (case save_configuration e cfg of
                  Inr e' \<Rightarrow>
                    (Inr \<lparr>status_code = 200,
                          body = jsonify [(''success'', JBool True),
                                          (''message'', JString ''Configuration saved successfully'')]\<rparr>,
                     s\<lparr>detection_engine := Some e'\<rparr>)
                | Inl err \<Rightarrow>
                    (Inr \<lparr>status_code = 400,
                          body = jsonify [(''success'', JBool False),
                                          (''message'', JString (describe err))]\<rparr>,
                     s\<lparr>detection_engine := Some e\<rparr>))))"

section \<open>A record as the simulation makes it\<close>

definition well_formed :: "detection \<Rightarrow> bool" where
  "well_formed d \<longleftrightarrow>
     label d = ''person'' \<and>
     3 / 4 \<le> confidence d \<and> confidence d \<le> 1 \<and>
     100 \<le> box_x (bounding_box d) \<and> box_x (bounding_box d) \<le> 1400 \<and>
     100 \<le> box_y (bounding_box d) \<and> box_y (bounding_box d) \<le> 800 \<and>
     100 \<le> box_width (bounding_box d) \<and> box_width (bounding_box d) \<le> 200 \<and>
     150 \<le> box_height (bounding_box d) \<and> box_height (bounding_box d) \<le> 250 \<and>
     center_x (center d) = box_x (bounding_box d) + box_width (bounding_box d) div 2 \<and>
     center_y (center d) = box_y (bounding_box d) + box_height (bounding_box d) div 2"

section \<open>Properties of the simulation\<close>

lemma round_half_even_int [simp]: "round_half_even (of_int m) = m"
  by (simp add: round_half_even_def)

lemma round_half_even_ge: "of_int n \<le> x \<Longrightarrow> n \<le> round_half_even x"
proof -
  assume "of_int n \<le> x"
  then have "n \<le> \<lfloor>x\<rfloor>" by (simp add: le_floor_iff)
  then show ?thesis by (auto simp add: round_half_even_def Let_def)
qed

lemma round_half_even_le: "x \<le> of_int n \<Longrightarrow> round_half_even x \<le> n"
proof -
  assume le: "x \<le> of_int n"
  show ?thesis
  proof (cases "x = of_int n")
    case True
    then show ?thesis by simp
  next
    case False
    with le have "x < of_int n" by simp
    then have "\<lfloor>x\<rfloor> < n" by (simp add: floor_less_iff)
    then show ?thesis by (auto simp add: round_half_even_def Let_def)
  qed
qed

lemma floor_log_bounds:
  assumes "2 powr real_of_int a \<le> x" and "x < 2 powr real_of_int b"
  shows "a \<le> \<lfloor>log 2 x\<rfloor> \<and> \<lfloor>log 2 x\<rfloor> < b"
proof -
  have pos: "0 < x" using assms(1) by (smt (verit) powr_gt_zero)
  have "real_of_int a \<le> log 2 x" using assms(1) pos by (simp add: le_log_iff)
  moreover have "log 2 x < real_of_int b" using assms(2) pos by (simp add: log_less_iff)
  ultimately show ?thesis by (simp add: le_floor_iff floor_less_iff)
qed

lemma float_exponent_unit:
  assumes "1 / 2 \<le> x" and "x < 1"
  shows "float_exponent x = - 1"
proof -
  have "2 powr real_of_int (- 1) \<le> x" using assms(1) by (simp add: powr_minus_divide)
  moreover have "x < 2 powr real_of_int 0" using assms(2) by simp
  ultimately have "- 1 \<le> \<lfloor>log 2 x\<rfloor> \<and> \<lfloor>log 2 x\<rfloor> < 0" by (rule floor_log_bounds)
  then have "\<lfloor>log 2 x\<rfloor> = - 1" by linarith
  moreover have "\<bar>x\<bar> = x" using assms(1) by simp
  ultimately show ?thesis by (simp add: float_exponent_def)
qed

lemma round_double_unit:
  assumes "1 / 2 \<le> x" and "x < 1"
  shows "round_double x = real_of_int (round_half_even (x * 2 ^ 53)) / 2 ^ 53"
proof -
  have "float_ulp x = 2 powr (- 53)"
    by (simp add: float_ulp_def float_exponent_unit [OF assms])
  also have "\<dots> = 1 / 2 ^ 53" by (simp add: powr_minus_divide powr_realpow [symmetric])
  finally have ulp: "float_ulp x = 1 / 2 ^ 53" .
  show ?thesis unfolding round_double_def ulp by simp
qed


lemma float_ulp_pos: "0 < float_ulp x"
  by (simp add: float_ulp_def)

lemma round_double_exact:
  assumes "x = real_of_int m * float_ulp x"
  shows "round_double x = x"
proof -
  have "x / float_ulp x = real_of_int m"
    using assms float_ulp_pos [of x] by (metis less_irrefl nonzero_mult_div_cancel_right)
  then show ?thesis using assms by (simp add: round_double_def)
qed

lemma float_mul_quarter:
  assumes "k < 2 ^ 53"
  shows "float_mul (real k / 2 ^ 53) (1 / 4) = real k / 2 ^ 55"
proof (cases "k = 0")
  case True
  have "round_half_even 0 = 0" using round_half_even_int [of 0] by simp
  with True show ?thesis by (simp add: float_mul_def round_double_def)
next
  case False
  define x where "x = real k / 2 ^ 55"
  define e where "e = \<lfloor>log 2 x\<rfloor>"
  have p55: "2 powr real_of_int (- 55) = 1 / 2 ^ 55"
    by (simp add: powr_minus_divide powr_realpow [symmetric])
  have p2: "2 powr real_of_int (- 2) = 1 / 4"
    by (simp add: powr_minus_divide powr_realpow [symmetric])
  from False have "1 \<le> real k" by simp
  then have lo: "2 powr real_of_int (- 55) \<le> x"
    unfolding p55 x_def by (simp add: divide_right_mono)
  from assms have "real k < 2 ^ 53"
    by (metis of_nat_less_iff of_nat_numeral of_nat_power)
  then have hi: "x < 2 powr real_of_int (- 2)"
    unfolding p2 x_def by simp
  from floor_log_bounds [OF lo hi] have e: "- 55 \<le> e" "e < - 2" by (simp_all add: e_def)
  have xpos: "0 < x" using lo by (smt (verit) powr_gt_zero)
  then have "float_exponent x = e" using e by (simp add: float_exponent_def e_def)
  then have ulp: "float_ulp x = 2 powr real_of_int (e - 52)" by (simp add: float_ulp_def)
  define n where "n = nat (- 3 - e)"
  have n: "real_of_int (- 3 - e) = real n" using e by (simp add: n_def)
  have "2 powr real_of_int (- 55) = 2 powr (real_of_int (- 3 - e) + real_of_int (e - 52))"
    by simp
  also have "\<dots> = 2 powr real n * 2 powr real_of_int (e - 52)"
    unfolding n by (rule powr_add)
  also have "2 powr real n = 2 ^ n" by (simp add: powr_realpow)
  finally have split: "1 / 2 ^ 55 = 2 ^ n * float_ulp x" unfolding p55 ulp .
  have "x = real_of_int (int k * 2 ^ n) * float_ulp x"
  proof -
    have "x = real k * (1 / 2 ^ 55)" by (simp add: x_def)
    also have "\<dots> = real k * (2 ^ n * float_ulp x)" by (simp only: split)
    finally show ?thesis by simp
  qed
  then have "round_double x = x" by (rule round_double_exact)
  moreover have "real k / 2 ^ 53 * (1 / 4) = x" by (simp add: x_def)
  ultimately show ?thesis by (simp add: float_mul_def x_def)
qed

lemma float_add_three_quarters:
  assumes "k < 2 ^ 53"
  shows "float_add (3 / 4) (real k / 2 ^ 55) =
           real_of_int (round_half_even (real (3 * 2 ^ 53 + k) / 4)) / 2 ^ 53"
proof -
  define x where "x = 3 / 4 + real k / 2 ^ 55"
  from assms have "real k < 2 ^ 53"
    by (metis of_nat_less_iff of_nat_numeral of_nat_power)
  then have "1 / 2 \<le> x" and "x < 1" by (simp_all add: x_def)
  then have r: "round_double x = real_of_int (round_half_even (x * 2 ^ 53)) / 2 ^ 53"
    by (rule round_double_unit)
  have q: "x * 2 ^ 53 = real (3 * 2 ^ 53 + k) / 4" by (simp add: x_def)
  have "float_add (3 / 4) (real k / 2 ^ 55) = round_double x"
    by (simp only: float_add_def x_def)
  then show ?thesis by (simp only: r q)
qed

lemma confidence_bounds:
  assumes "k < 2 ^ 53"
  shows "3 / 4 \<le> float_add (3 / 4) (float_mul (real k / 2 ^ 53) (1 / 4)) \<and>
         float_add (3 / 4) (float_mul (real k / 2 ^ 53) (1 / 4)) \<le> 1"
proof -
  define q where "q = real (3 * 2 ^ 53 + k) / 4"
  from assms have k: "real k < 2 ^ 53"
    by (metis of_nat_less_iff of_nat_numeral of_nat_power)
  have "real_of_int (3 * 2 ^ 51) \<le> q" by (simp add: q_def)
  then have lo: "3 * 2 ^ 51 \<le> round_half_even q" by (rule round_half_even_ge)
  have "q \<le> real_of_int (2 ^ 53)" using k by (simp add: q_def)
  then have hi: "round_half_even q \<le> 2 ^ 53" by (rule round_half_even_le)
  have val: "float_add (3 / 4) (float_mul (real k / 2 ^ 53) (1 / 4)) =
      real_of_int (round_half_even q) / 2 ^ 53"
    by (simp only: float_mul_quarter [OF assms] float_add_three_quarters [OF assms] q_def)
  have "real_of_int (3 * 2 ^ 51) \<le> real_of_int (round_half_even q)"
    using lo by (simp only: of_int_le_iff)
  moreover have "real_of_int (round_half_even q) \<le> real_of_int (2 ^ 53)"
    using hi by (simp only: of_int_le_iff)
  ultimately show ?thesis unfolding val by (simp add: divide_simps)
qed

lemma confidence_value:
  assumes "k < 2 ^ 53"
  shows "float_add 0.75 (float_mul (real k / 2 ^ 53) 0.25) =
           real_of_int (round_half_even (real (3 * 2 ^ 53 + k) / 4)) / 2 ^ 53"
proof -
  have c: "(0.75 :: real) = 3 / 4" "(0.25 :: real) = 1 / 4" by simp_all
  show ?thesis
    by (simp only: c float_mul_quarter [OF assms] float_add_three_quarters [OF assms])
qed

lemma float_exponent_binade:
  assumes "2 powr real_of_int e \<le> x" and "x < 2 powr real_of_int (e + 1)" and "- 1022 \<le> e"
  shows "float_exponent x = e"
proof -
  from floor_log_bounds [OF assms(1,2)] have "\<lfloor>log 2 x\<rfloor> = e" by linarith
  moreover have "0 < x" using assms(1) by (smt (verit) powr_gt_zero)
  ultimately show ?thesis using assms(3) by (simp add: float_exponent_def)
qed

lemma double_three_tenths: "round_double (3 / 10) = 5404319552844595 / 2 ^ 54"
proof -
  have p2: "(2 :: real) powr (- 2) = 1 / 4" and p1: "(2 :: real) powr (- 1) = 1 / 2"
    by (simp_all add: powr_minus_divide)
  have "float_exponent (3 / 10) = - 2"
    by (rule float_exponent_binade) (simp_all add: p1 p2)
  then have "float_ulp (3 / 10) = 2 powr (- 54)" by (simp add: float_ulp_def)
  also have "\<dots> = 1 / 2 ^ 54" by (simp add: powr_minus_divide powr_realpow [symmetric])
  finally have ulp: "float_ulp (3 / 10) = 1 / 2 ^ 54" .
  have "round_half_even (3 / 10 * 2 ^ 54) = 5404319552844595"
    by (simp add: round_half_even_def)
  then show ?thesis unfolding round_double_def ulp by simp
qed

text \<open>
  No value of \<open>random.random()\<close> lies between the double 0.3 and 3/10: the test of the
  source takes the branch that the exact comparison takes.
\<close>

lemma below_three_tenths:
  "real k / 2 ^ 53 < round_double (3 / 10) \<longleftrightarrow> real k / 2 ^ 53 < 3 / 10"
proof -
  have "real k / 2 ^ 53 < round_double (3 / 10) \<longleftrightarrow> real (2 * k) < real 5404319552844595"
    unfolding double_three_tenths by (simp add: divide_simps)
  also have "\<dots> \<longleftrightarrow> 2 * k < 5404319552844595" by (simp only: of_nat_less_iff)
  also have "\<dots> \<longleftrightarrow> 10 * k < 27021597764222976" by presburger
  also have "\<dots> \<longleftrightarrow> real (10 * k) < real 27021597764222976" by (simp only: of_nat_less_iff)
  also have "\<dots> \<longleftrightarrow> real k / 2 ^ 53 < 3 / 10" by (simp add: divide_simps)
  finally show ?thesis .
qed

lemma random_random_value: "fst (random_random g) = real (g 0 mod 2 ^ 53) / 2 ^ 53"
  by (simp add: random_random_def)

lemma make_detection_value:
  "make_detection g =
     (let (r, g1) = random_random g;
          (vx, g2) = random_randint 100 1400 g1;
          (vy, g3) = random_randint 100 800 g2;
          (vw, g4) = random_randint 0 100 g3;
          (vh, g5) = random_randint 0 100 g4;
          box = \<lparr>box_x = vx, box_y = vy, box_width = 100 + vw, box_height = 150 + vh\<rparr>
      in (\<lparr>label = ''person'',
           confidence =
             real_of_int (round_half_even (real (3 * 2 ^ 53 + g 0 mod 2 ^ 53) / 4)) / 2 ^ 53,
           bounding_box = box,
           center = \<lparr>center_x = box_x box + box_width box div 2,
                      center_y = box_y box + box_height box div 2\<rparr>\<rparr>, g5))"
proof -
  have m: "g 0 mod 2 ^ 53 < 2 ^ 53" by simp
  have cv: "float_add 0.75 (float_mul (fst (random_random g)) 0.25) =
      real_of_int (round_half_even (real (3 * 2 ^ 53 + g 0 mod 2 ^ 53) / 4)) / 2 ^ 53"
    by (simp only: random_random_value confidence_value [OF m])
  show ?thesis by (simp only: make_detection_def split_def Let_def cv)
qed

lemma random_randint_range:
  assumes "a \<le> b"
  shows "a \<le> fst (random_randint a b g) \<and> fst (random_randint a b g) \<le> b"
proof -
  from assms have pos: "0 < nat (b - a + 1)" by simp
  have "g 0 mod nat (b - a + 1) < nat (b - a + 1)" using pos by (rule mod_less_divisor)
  then have "int (g 0 mod nat (b - a + 1)) < b - a + 1" using assms by linarith
  then show ?thesis by (simp add: random_randint_def)
qed

lemma make_detection_well_formed: "well_formed (fst (make_detection g))"
proof -
  obtain r g1 where r: "random_random g = (r, g1)" by (cases "random_random g")
  obtain vx g2 where vx: "random_randint 100 1400 g1 = (vx, g2)"
    by (cases "random_randint 100 1400 g1")
  obtain vy g3 where vy: "random_randint 100 800 g2 = (vy, g3)"
    by (cases "random_randint 100 800 g2")
  obtain vw g4 where vw: "random_randint 0 100 g3 = (vw, g4)"
    by (cases "random_randint 0 100 g3")
  obtain vh g5 where vh: "random_randint 0 100 g4 = (vh, g5)"
    by (cases "random_randint 0 100 g4")
  have bx: "100 \<le> vx \<and> vx \<le> 1400" using random_randint_range [of 100 1400 g1] vx by simp
  have by': "100 \<le> vy \<and> vy \<le> 800" using random_randint_range [of 100 800 g2] vy by simp
  have bw: "0 \<le> vw \<and> vw \<le> 100" using random_randint_range [of 0 100 g3] vw by simp
  have bh: "0 \<le> vh \<and> vh \<le> 100" using random_randint_range [of 0 100 g4] vh by simp
  have m: "g 0 mod 2 ^ 53 < 2 ^ 53" by simp
  have rv: "r = real (g 0 mod 2 ^ 53) / 2 ^ 53" using random_random_value [of g] r by simp
  have bc: "3 / 4 \<le> float_add (3 / 4) (float_mul r (1 / 4)) \<and>
            float_add (3 / 4) (float_mul r (1 / 4)) \<le> 1"
    unfolding rv by (rule confidence_bounds [OF m])
  show ?thesis
    using bc bx by' bw bh
    by (simp add: make_detection_def well_formed_def r vx vy vw vh)
qed

lemma gen_detections_set:
  "\<forall>d \<in> set acc. well_formed d \<Longrightarrow> \<forall>d \<in> set (fst (gen_detections n acc g)). well_formed d"
proof (induction n arbitrary: acc g)
  case 0
  then show ?case by simp
next
  case (Suc n)
  obtain d g' where d: "make_detection g = (d, g')" by (cases "make_detection g")
  have "well_formed d" using make_detection_well_formed [of g] d by simp
  with Suc.prems have "\<forall>x \<in> set (acc @ [d]). well_formed x" by auto
  from Suc.IH [OF this] show ?case by (simp add: d)
qed

lemma gen_detections_length: "length (fst (gen_detections n acc g)) = length acc + n"
proof (induction n arbitrary: acc g)
  case 0
  then show ?case by simp
next
  case (Suc n)
  obtain d g' where d: "make_detection g = (d, g')" by (cases "make_detection g")
  show ?case using Suc.IH [of "acc @ [d]" g'] by (simp add: d)
qed

lemma simulate_detection_length: "length (fst (simulate_detection g)) \<le> 3"
proof -
  obtain r g1 where r: "random_random g = (r, g1)" by (cases "random_random g")
  obtain k g2 where k: "random_randint 1 3 g1 = (k, g2)" by (cases "random_randint 1 3 g1")
  have "1 \<le> k \<and> k \<le> 3" using random_randint_range [of 1 3 g1] k by simp
  then have "nat k \<le> 3" by linarith
  then show ?thesis by (simp add: simulate_detection_def r k gen_detections_length)
qed

text \<open>
  C2. Every record of a simulated batch has label "person", confidence in [0.75, 1.0], box
  x in [100, 1400], y in [100, 800], width in [100, 200], height in [150, 250] and center
  (x + width div 2, y + height div 2) with floor division; a non-empty batch holds between
  one and three records. The confidence is the double the source computes: the product
  and the sum are rounded, and both bounds are reached.
\<close>

theorem simulate_detection_records:
  "(\<forall>d \<in> set (fst (simulate_detection g)).
      label d = ''person'' \<and>
      3 / 4 \<le> confidence d \<and> confidence d \<le> 1 \<and>
      100 \<le> box_x (bounding_box d) \<and> box_x (bounding_box d) \<le> 1400 \<and>
      100 \<le> box_y (bounding_box d) \<and> box_y (bounding_box d) \<le> 800 \<and>
      100 \<le> box_width (bounding_box d) \<and> box_width (bounding_box d) \<le> 200 \<and>
      150 \<le> box_height (bounding_box d) \<and> box_height (bounding_box d) \<le> 250 \<and>
      center d = \<lparr>center_x = box_x (bounding_box d) + box_width (bounding_box d) div 2,
                  center_y = box_y (bounding_box d) + box_height (bounding_box d) div 2\<rparr>) \<and>
   (fst (simulate_detection g) \<noteq> [] \<longrightarrow>
      1 \<le> length (fst (simulate_detection g)) \<and> length (fst (simulate_detection g)) \<le> 3)"
proof -
  have wf: "\<forall>d \<in> set (fst (simulate_detection g)). well_formed d"
  proof -
    obtain r g1 where r: "random_random g = (r, g1)" by (cases "random_random g")
    obtain k g2 where k: "random_randint 1 3 g1 = (k, g2)" by (cases "random_randint 1 3 g1")
    have "\<forall>d \<in> set (fst (gen_detections (nat k) [] g2)). well_formed d"
      by (rule gen_detections_set) simp
    then show ?thesis by (simp add: simulate_detection_def r k)
  qed
  have len: "fst (simulate_detection g) \<noteq> [] \<longrightarrow>
      1 \<le> length (fst (simulate_detection g)) \<and> length (fst (simulate_detection g)) \<le> 3"
    using simulate_detection_length [of g]
    by (cases "fst (simulate_detection g)") simp_all
  show ?thesis
  proof (rule conjI)
    show "\<forall>d \<in> set (fst (simulate_detection g)).
      label d = ''person'' \<and>
      3 / 4 \<le> confidence d \<and> confidence d \<le> 1 \<and>
      100 \<le> box_x (bounding_box d) \<and> box_x (bounding_box d) \<le> 1400 \<and>
      100 \<le> box_y (bounding_box d) \<and> box_y (bounding_box d) \<le> 800 \<and>
      100 \<le> box_width (bounding_box d) \<and> box_width (bounding_box d) \<le> 200 \<and>
      150 \<le> box_height (bounding_box d) \<and> box_height (bounding_box d) \<le> 250 \<and>
      center d = \<lparr>center_x = box_x (bounding_box d) + box_width (bounding_box d) div 2,
                  center_y = box_y (bounding_box d) + box_height (bounding_box d) div 2\<rparr>"
    proof
      fix d assume "d \<in> set (fst (simulate_detection g))"
      with wf have "well_formed d" by blast
      then show "label d = ''person'' \<and>
        3 / 4 \<le> confidence d \<and> confidence d \<le> 1 \<and>
        100 \<le> box_x (bounding_box d) \<and> box_x (bounding_box d) \<le> 1400 \<and>
        100 \<le> box_y (bounding_box d) \<and> box_y (bounding_box d) \<le> 800 \<and>
        100 \<le> box_width (bounding_box d) \<and> box_width (bounding_box d) \<le> 200 \<and>
        150 \<le> box_height (bounding_box d) \<and> box_height (bounding_box d) \<le> 250 \<and>
        center d = \<lparr>center_x = box_x (bounding_box d) + box_width (bounding_box d) div 2,
                    center_y = box_y (bounding_box d) + box_height (bounding_box d) div 2\<rparr>"
        by (simp add: well_formed_def)
    qed
  next
    show "fst (simulate_detection g) \<noteq> [] \<longrightarrow>
      1 \<le> length (fst (simulate_detection g)) \<and> length (fst (simulate_detection g)) \<le> 3"
      by (rule len)
  qed
qed

text \<open>
  Two runs with one record each. In the first the draw for the confidence is the largest
  value of \<open>random.random()\<close>, \<open>1 - 2 ^ -53\<close>, and the sum rounds to 1.0; in the
  second it is the smallest positive one, \<open>2 ^ -53\<close>, and the sum rounds to 0.75.
\<close>

theorem simulate_detection_records_witness:
  "fst (simulate_detection (\<lambda>i. if i = 2 then 9007199254740991 else 0)) =
     [\<lparr>label = ''person'', confidence = 1,
       bounding_box = \<lparr>box_x = 100, box_y = 100, box_width = 100, box_height = 150\<rparr>,
       center = \<lparr>center_x = 150, center_y = 175\<rparr>\<rparr>] \<and>
   fst (simulate_detection (\<lambda>i. if i = 2 then 1 else 0)) =
     [\<lparr>label = ''person'', confidence = 3 / 4,
       bounding_box = \<lparr>box_x = 100, box_y = 100, box_width = 100, box_height = 150\<rparr>,
       center = \<lparr>center_x = 150, center_y = 175\<rparr>\<rparr>] \<and>
   1 \<le> length (fst (simulate_detection (\<lambda>i. if i = 2 then 9007199254740991 else 0))) \<and>
   length (fst (simulate_detection (\<lambda>i. if i = 2 then 9007199254740991 else 0))) \<le> 3"
  using simulate_detection_records [of "\<lambda>i. if i = 2 then 9007199254740991 else 0"]
    simulate_detection_records [of "\<lambda>i. if i = 2 then 1 else 0"]
  by (simp add: simulate_detection_def random_random_def random_randint_def rng_next_def
      make_detection_value round_half_even_def double_three_tenths)

section \<open>Properties of the best target\<close>

lemma max_from_split:
  "\<exists>pre post. b # ds = pre @ max_from b ds # post \<and>
     (\<forall>d \<in> set pre. confidence d < confidence (max_from b ds)) \<and>
     (\<forall>d \<in> set post. confidence d \<le> confidence (max_from b ds))"
proof (induction ds arbitrary: b)
  case Nil
  have "[b] = [] @ max_from b [] # []" by simp
  then show ?case by fastforce
next
  case (Cons d ds)
  define b' where "b' = (if confidence b < confidence d then d else b)"
  define m where "m = max_from b (d # ds)"
  have m: "m = max_from b' ds" by (simp add: m_def b'_def)
  from Cons.IH [of b'] obtain pre post where
    split: "b' # ds = pre @ m # post"
    and before: "\<forall>x \<in> set pre. confidence x < confidence m"
    and after: "\<forall>x \<in> set post. confidence x \<le> confidence m"
    unfolding m by blast
  have ge: "confidence b' \<le> confidence m"
  proof (cases pre)
    case Nil
    with split show ?thesis by simp
  next
    case (Cons p ps)
    with split before show ?thesis by auto
  qed
  have "\<exists>pre post. b # d # ds = pre @ m # post \<and>
     (\<forall>x \<in> set pre. confidence x < confidence m) \<and>
     (\<forall>x \<in> set post. confidence x \<le> confidence m)"
  proof (cases "confidence b < confidence d")
    case True
    then have b': "b' = d" by (simp add: b'_def)
    have "b # d # ds = (b # pre) @ m # post" using split b' by simp
    moreover have "\<forall>x \<in> set (b # pre). confidence x < confidence m"
      using True ge before b' by auto
    ultimately show ?thesis using after by blast
  next
    case False
    then have b': "b' = b" by (simp add: b'_def)
    show ?thesis
    proof (cases pre)
      case Nil
      then have "b # d # ds = [] @ m # (d # post)" using split b' by simp
      moreover have "\<forall>x \<in> set (d # post). confidence x \<le> confidence m"
        using False ge after b' by auto
      ultimately show ?thesis by fastforce
    next
      case (Cons p ps)
      then have p: "p = b" and ds: "ds = ps @ m # post" using split b' by simp_all
      have "b # d # ds = (b # d # ps) @ m # post" using ds by simp
      moreover have "\<forall>x \<in> set (b # d # ps). confidence x < confidence m"
        using False before Cons p by auto
      ultimately show ?thesis using after by blast
    qed
  qed
  then show ?case by (simp only: m_def)
qed

lemma py_max_member: "py_max ds = Inr b \<Longrightarrow> b \<in> set ds"
proof (cases ds)
  case Nil
  assume "py_max ds = Inr b"
  with Nil show ?thesis by (simp add: py_max_def)
next
  case (Cons d rest)
  assume "py_max ds = Inr b"
  with Cons have b: "b = max_from d rest" by (simp add: py_max_def)
  from max_from_split [of d rest] obtain pre post where
    "d # rest = pre @ max_from d rest # post" by blast
  then have "max_from d rest \<in> set (d # rest)" by (metis in_set_conv_decomp)
  with b Cons show ?thesis by simp
qed



section \<open>Properties of one iteration of the loop\<close>



lemma select_best_target_best:
  "select_best_target cfg dets m = Inr (best, m2) \<Longrightarrow>
     (best = None \<longleftrightarrow> dets = []) \<and> (\<forall>b. best = Some b \<longrightarrow> py_max dets = Inr b)"
  by (cases dets)
    (auto simp add: select_best_target_def bind_def py_max_def split: sum.splits if_splits)







text \<open>
  C8. In every published \<open>detection_update\<close> event, \<open>best_target\<close> is None exactly when
  \<open>detections\<close> is empty, and otherwise it is one of the records of that same list.
\<close>

theorem published_best_target:
  assumes "detection_loop_body cfg g elapsed now1 now2 m = (m', Inr ev, g')"
  shows "(best_target ev = None \<longleftrightarrow> detections ev = []) \<and>
         (\<forall>b. best_target ev = Some b \<longrightarrow> b \<in> set (detections ev))"
proof -
  obtain dets g'' where sim: "simulate_detection g = (dets, g'')"
    by (cases "simulate_detection g")
  define m1 where "m1 = m\<lparr>total_detections := total_detections m + int (length dets),
                 last_detection_time := Some now1,
                 average_processing_time := JFloat (Finite elapsed)\<rparr>"
  from assms obtain best m2 where
    sel: "select_best_target cfg dets m1 = Inr (best, m2)"
    and ev: "ev = \<lparr>detections = dets, best_target = best, processing_time = elapsed,
                   screenshot_size = (1920, 1080), timestamp = now2\<rparr>"
    by (auto simp add: detection_loop_body_def sim m1_def Let_def split: sum.splits prod.splits)
  from select_best_target_best [OF sel]
  have none: "best = None \<longleftrightarrow> dets = []"
    and some: "\<forall>b. best = Some b \<longrightarrow> py_max dets = Inr b" by simp_all
  have "\<forall>b. best = Some b \<longrightarrow> b \<in> set dets"
    using some py_max_member by blast
  with none show ?thesis by (simp add: ev)
qed

theorem published_best_target_witness:
  "detection_loop_body default_configuration (\<lambda>i. 0) 2 ''12:00:00'' ''12:00:01''
     initial_metrics =
     (\<lparr>total_detections = 1, last_detection_time = Some ''12:00:00'',
       average_processing_time = JFloat (Finite 2), successful_targets = 1\<rparr>,
      Inr \<lparr>detections =
             [\<lparr>label = ''person'', confidence = 3 / 4,
               bounding_box =
                 \<lparr>box_x = 100, box_y = 100, box_width = 100, box_height = 150\<rparr>,
               center = \<lparr>center_x = 150, center_y = 175\<rparr>\<rparr>],
           best_target =
             Some \<lparr>label = ''person'', confidence = 3 / 4,
               bounding_box =
                 \<lparr>box_x = 100, box_y = 100, box_width = 100, box_height = 150\<rparr>,
               center = \<lparr>center_x = 150, center_y = 175\<rparr>\<rparr>,
           processing_time = 2, screenshot_size = (1920, 1080),
           timestamp = ''12:00:01''\<rparr>,
      rng_next (rng_next (rng_next (rng_next (rng_next (rng_next (rng_next (\<lambda>i. 0)))))))) \<and>
   \<lparr>label = ''person'', confidence = 3 / 4,
     bounding_box = \<lparr>box_x = 100, box_y = 100, box_width = 100, box_height = 150\<rparr>,
     center = \<lparr>center_x = 150, center_y = 175\<rparr>\<rparr>
   \<in> set [\<lparr>label = ''person'', confidence = 3 / 4,
             bounding_box =
               \<lparr>box_x = 100, box_y = 100, box_width = 100, box_height = 150\<rparr>,
             center = \<lparr>center_x = 150, center_y = 175\<rparr>\<rparr>]"
proof -
  have run: "detection_loop_body default_configuration (\<lambda>i. 0) 2 ''12:00:00'' ''12:00:01''
     initial_metrics =
     (\<lparr>total_detections = 1, last_detection_time = Some ''12:00:00'',
       average_processing_time = JFloat (Finite 2), successful_targets = 1\<rparr>,
      Inr \<lparr>detections =
             [\<lparr>label = ''person'', confidence = 3 / 4,
               bounding_box =
                 \<lparr>box_x = 100, box_y = 100, box_width = 100, box_height = 150\<rparr>,
               center = \<lparr>center_x = 150, center_y = 175\<rparr>\<rparr>],
           best_target =
             Some \<lparr>label = ''person'', confidence = 3 / 4,
               bounding_box =
                 \<lparr>box_x = 100, box_y = 100, box_width = 100, box_height = 150\<rparr>,
               center = \<lparr>center_x = 150, center_y = 175\<rparr>\<rparr>,
           processing_time = 2, screenshot_size = (1920, 1080),
           timestamp = ''12:00:01''\<rparr>,
      rng_next (rng_next (rng_next (rng_next (rng_next (rng_next (rng_next (\<lambda>i. 0))))))))"
    by (simp add: detection_loop_body_def simulate_detection_def random_random_def
      random_randint_def make_detection_value round_half_even_def double_three_tenths select_best_target_def
      py_max_def
      above_threshold_def subscript_def bind_def default_configuration_def
      initial_metrics_def rng_next_def)
  from published_best_target [OF run] run show ?thesis by simp
qed

section \<open>Properties of the routes\<close>

text \<open>
  C5. A POST to \<open>/api/processes\<close> with a list replaces the stored list by it, whatever was
  stored: after posting one list and then another, the stored list is the second one, and
  a GET returns it. A body that is not a list empties the stored list and is answered with
  success and count 0. The count of the response is the length of the accepted list, and a
  \<open>bridge_update\<close> event with the records, the time stamp and the count is emitted. A
  body that cannot be parsed is answered with a failure and status 400, and changes
  nothing.
\<close>

theorem processes_post:
  "snd (snd (processes (POST (Inr (JList l))) now s)) = s\<lparr>bridge_processes := l\<rparr> \<and>
   bridge_processes
     (snd (snd (processes (POST (Inr (JList l2))) now2
        (snd (snd (processes (POST (Inr (JList l1))) now1 s)))))) = l2 \<and>
   fst (processes GET now3
     (snd (snd (processes (POST (Inr (JList l2))) now2
        (snd (snd (processes (POST (Inr (JList l1))) now1 s))))))) =
     \<lparr>status_code = 200, body = JList l2\<rparr> \<and>
   ((\<forall>xs. data \<noteq> JList xs) \<longrightarrow>
      processes (POST (Inr data)) now s =
        (\<lparr>status_code = 200,
          body = jsonify [(''success'', JBool True),
                          (''message'', JString ''Processes received successfully''),
                          (''count'', JInt 0)]\<rparr>,
         Some \<lparr>update_processes = [], update_timestamp = now, update_count = 0\<rparr>,
         s\<lparr>bridge_processes := []\<rparr>)) \<and>
   fst (processes (POST (Inr (JList l))) now s) =
     \<lparr>status_code = 200,
      body = jsonify [(''success'', JBool True),
                      (''message'', JString ''Processes received successfully''),
                      (''count'', JInt (int (length l)))]\<rparr> \<and>
   fst (snd (processes (POST (Inr (JList l))) now s)) =
     Some \<lparr>update_processes = l, update_timestamp = now, update_count = length l\<rparr> \<and>
   processes (POST (Inl msg)) now s =
     (\<lparr>status_code = 400,
       body = jsonify [(''success'', JBool False), (''message'', JString msg)]\<rparr>, None, s)"
  by (cases data) (simp_all add: Let_def)

theorem processes_post_witness:
  "(\<forall>xs. JDict (fmap_of_list [(''x'', JInt 1)]) \<noteq> JList xs) \<and>
   processes (POST (Inr (JDict (fmap_of_list [(''x'', JInt 1)])))) ''12:00:00''
     \<lparr>detection_engine = None, detection_metrics = initial_metrics,
      bridge_processes = [JString ''A'', JString ''B'']\<rparr> =
     (\<lparr>status_code = 200,
       body = jsonify [(''success'', JBool True),
                       (''message'', JString ''Processes received successfully''),
                       (''count'', JInt 0)]\<rparr>,
      Some \<lparr>update_processes = [], update_timestamp = ''12:00:00'', update_count = 0\<rparr>,
      \<lparr>detection_engine = None, detection_metrics = initial_metrics,
       bridge_processes = []\<rparr>)"
  using processes_post
    [where data = "JDict (fmap_of_list [(''x'', JInt 1)])" and now = "''12:00:00''"
       and s = "\<lparr>detection_engine = None, detection_metrics = initial_metrics,
                 bridge_processes = [JString ''A'', JString ''B'']\<rparr>"]
  by simp

text \<open>
  C9. When a POST to \<open>/api/processes\<close> is answered with success, the count of the
  response, the count of the emitted \<open>bridge_update\<close> event and the length of the stored
  list after the call are equal, and the event carries the stored list.
\<close>

theorem processes_counts_agree:
  assumes "processes (POST b) now s = (r, ev, s')"
    and "member (body r) ''success'' = Some (JBool True)"
  shows "member (body r) ''count'' = Some (JInt (int (length (bridge_processes s')))) \<and>
         (\<exists>u. ev = Some u \<and>
            update_count u = length (bridge_processes s') \<and>
            update_processes u = bridge_processes s')"
proof (cases b)
  case (Inl msg)
  with assms show ?thesis by (auto simp add: member_def jsonify_def)
next
  case (Inr data)
  with assms(1) show ?thesis by (auto simp add: member_def jsonify_def Let_def)
qed

theorem processes_counts_agree_witness:
  "processes (POST (Inr (JList [JString ''A'', JString ''B'']))) ''12:00:00''
     \<lparr>detection_engine = None, detection_metrics = initial_metrics, bridge_processes = []\<rparr> =
     (\<lparr>status_code = 200,
       body = jsonify [(''success'', JBool True),
                       (''message'', JString ''Processes received successfully''),
                       (''count'', JInt 2)]\<rparr>,
      Some \<lparr>update_processes = [JString ''A'', JString ''B''],
            update_timestamp = ''12:00:00'', update_count = 2\<rparr>,
      \<lparr>detection_engine = None, detection_metrics = initial_metrics,
       bridge_processes = [JString ''A'', JString ''B'']\<rparr>) \<and>
   member (jsonify [(''success'', JBool True),
                    (''message'', JString ''Processes received successfully''),
                    (''count'', JInt 2)]) ''success'' = Some (JBool True) \<and>
   member (jsonify [(''success'', JBool True),
                    (''message'', JString ''Processes received successfully''),
                    (''count'', JInt 2)]) ''count'' = Some (JInt 2)"
proof -
  have run: "processes (POST (Inr (JList [JString ''A'', JString ''B'']))) ''12:00:00''
     \<lparr>detection_engine = None, detection_metrics = initial_metrics, bridge_processes = []\<rparr> =
     (\<lparr>status_code = 200,
       body = jsonify [(''success'', JBool True),
                       (''message'', JString ''Processes received successfully''),
                       (''count'', JInt 2)]\<rparr>,
      Some \<lparr>update_processes = [JString ''A'', JString ''B''],
            update_timestamp = ''12:00:00'', update_count = 2\<rparr>,
      \<lparr>detection_engine = None, detection_metrics = initial_metrics,
       bridge_processes = [JString ''A'', JString ''B'']\<rparr>)"
    by (simp add: Let_def)
  have ok: "member (body \<lparr>status_code = 200,
       body = jsonify [(''success'', JBool True),
                       (''message'', JString ''Processes received successfully''),
                       (''count'', JInt 2)]\<rparr>) ''success'' = Some (JBool True)"
    by (simp add: member_def jsonify_def)
  from processes_counts_agree [OF run ok] run ok show ?thesis by simp
qed

text \<open>
  C10. \<open>/api/status\<close> answers with \<open>bridge_processes\<close> the number of stored records and
  \<open>bridge_connected\<close> whether that number is positive; without an engine it answers
  \<open>is_running\<close> false and an empty configuration.
\<close>

theorem status_snapshot:
  "status_code (status s) = 200 \<and>
   member (body (status s)) ''bridge_connected'' = Some (JBool (0 < length (bridge_processes s))) \<and>
   member (body (status s)) ''bridge_processes'' = Some (JInt (int (length (bridge_processes s)))) \<and>
   (detection_engine s = None \<longrightarrow>
      member (body (status s)) ''is_running'' = Some (JBool False) \<and>
      member (body (status s)) ''configuration'' = Some (JDict fmempty))"
  by (simp add: status_def member_def jsonify_def)

theorem status_snapshot_witness:
  "detection_engine \<lparr>detection_engine = None, detection_metrics = initial_metrics,
      bridge_processes = [JString ''A'']\<rparr> = None \<and>
   member (body (status \<lparr>detection_engine = None, detection_metrics = initial_metrics,
      bridge_processes = [JString ''A'']\<rparr>)) ''is_running'' = Some (JBool False) \<and>
   member (body (status \<lparr>detection_engine = None, detection_metrics = initial_metrics,
      bridge_processes = [JString ''A'']\<rparr>)) ''configuration'' = Some (JDict fmempty) \<and>
   member (body (status \<lparr>detection_engine = None, detection_metrics = initial_metrics,
      bridge_processes = [JString ''A'']\<rparr>)) ''bridge_connected'' = Some (JBool True) \<and>
   member (body (status \<lparr>detection_engine = None, detection_metrics = initial_metrics,
      bridge_processes = [JString ''A'']\<rparr>)) ''bridge_processes'' = Some (JInt 1)"
  using status_snapshot [of "\<lparr>detection_engine = None, detection_metrics = initial_metrics,
      bridge_processes = [JString ''A'']\<rparr>"]
  by simp

section \<open>Properties of the configuration\<close>

lemma save_configuration_lookup:
  "save_configuration self (JDict d) = Inr (self\<lparr>config := config self ++\<^sub>f d\<rparr>)"
  by (simp add: save_configuration_def)

lemma fmlookup_merge:
  "fmlookup (c ++\<^sub>f d) k = (case fmlookup d k of Some v \<Rightarrow> Some v | None \<Rightarrow> fmlookup c k)"
  by (cases "fmlookup d k") (auto simp add: fmlookup_dom_iff)

text \<open>
  C4. \<open>save_configuration\<close> with a dictionary is a merge by key: a key of the update gets
  the value the update gives it, whatever the key, and every other key keeps its value; the
  rest of the engine is untouched. So a POST of \<open>{ConfidenceThreshold: 0.8}\<close> to
  \<open>/api/configuration\<close> is answered with success, and the GET that follows returns
  \<open>ConfidenceThreshold\<close> 0.8 and every other key as it was.
\<close>

theorem configuration_merge:
  "(\<exists>self'. save_configuration self (JDict d) = Inr self' \<and>
      is_running self' = is_running self \<and>
      detection_thread self' = detection_thread self \<and>
      (\<forall>k. fmlookup (config self') k =
         (case fmlookup d k of Some v \<Rightarrow> Some v | None \<Rightarrow> fmlookup (config self) k))) \<and>
   (ensure_engine parse_float parse_int env s = Inr self \<longrightarrow>
      (\<exists>r1 s1 r2 s2.
         configuration parse_float parse_int env describe
           (POST (Inr (JDict (fmap_of_list [(''ConfidenceThreshold'', JFloat (Finite 0.8))]))))
           s = (Inr r1, s1) \<and>
         status_code r1 = 200 \<and>
         member (body r1) ''success'' = Some (JBool True) \<and>
         configuration parse_float parse_int env describe GET s1 = (Inr r2, s2) \<and>
         status_code r2 = 200 \<and>
         (\<forall>k. member (body r2) k =
            (if k = ''ConfidenceThreshold'' then Some (JFloat (Finite 0.8))
             else fmlookup (config self) k))))"
proof (rule conjI)
  show "\<exists>self'. save_configuration self (JDict d) = Inr self' \<and>
      is_running self' = is_running self \<and>
      detection_thread self' = detection_thread self \<and>
      (\<forall>k. fmlookup (config self') k =
         (case fmlookup d k of Some v \<Rightarrow> Some v | None \<Rightarrow> fmlookup (config self) k))"
    by (simp add: save_configuration_lookup fmlookup_merge del: fmlookup_add)
next
  show "ensure_engine parse_float parse_int env s = Inr self \<longrightarrow>
      (\<exists>r1 s1 r2 s2.
         configuration parse_float parse_int env describe
           (POST (Inr (JDict (fmap_of_list [(''ConfidenceThreshold'', JFloat (Finite 0.8))]))))
           s = (Inr r1, s1) \<and>
         status_code r1 = 200 \<and>
         member (body r1) ''success'' = Some (JBool True) \<and>
         configuration parse_float parse_int env describe GET s1 = (Inr r2, s2) \<and>
         status_code r2 = 200 \<and>
         (\<forall>k. member (body r2) k =
            (if k = ''ConfidenceThreshold'' then Some (JFloat (Finite 0.8))
             else fmlookup (config self) k)))"
    by (simp add: configuration_def ensure_engine_def save_configuration_lookup member_def
        jsonify_def)
qed

lemma default_load:
  "load_configuration parse_float parse_int Map.empty = Inr default_configuration"
  by (simp add: load_configuration_def env_float_def env_int_def env_bool_def env_str_def
      bind_def default_configuration_def lower_def lower_char_def)

text \<open>
  In the examples the two parsers are given as the tables of what \<open>float\<close> and \<open>int\<close>
  return on the strings that the environment holds for the numeric inputs. Here the
  environment is empty, and so are the tables.
\<close>

theorem configuration_merge_witness:
  "ensure_engine Map.empty Map.empty Map.empty
     \<lparr>detection_engine = None, detection_metrics = initial_metrics, bridge_processes = []\<rparr> =
     Inr \<lparr>config = default_configuration, is_running = False, detection_thread = None\<rparr> \<and>
   (\<exists>r1 s1 r2 s2.
      configuration Map.empty Map.empty Map.empty (\<lambda>e. ''error'')
        (POST (Inr (JDict (fmap_of_list [(''ConfidenceThreshold'', JFloat (Finite 0.8))]))))
        \<lparr>detection_engine = None, detection_metrics = initial_metrics, bridge_processes = []\<rparr>
        = (Inr r1, s1) \<and>
      configuration Map.empty Map.empty Map.empty (\<lambda>e. ''error'') GET s1 = (Inr r2, s2) \<and>
      member (body r2) ''ConfidenceThreshold'' = Some (JFloat (Finite 0.8)) \<and>
      member (body r2) ''FOV'' = Some (JInt 100))"
proof -
  have h: "ensure_engine Map.empty Map.empty Map.empty
     \<lparr>detection_engine = None, detection_metrics = initial_metrics, bridge_processes = []\<rparr> =
     Inr \<lparr>config = default_configuration, is_running = False, detection_thread = None\<rparr>"
    by (simp add: ensure_engine_def new_engine_def default_load bind_def)
  have fov: "fmlookup default_configuration ''FOV'' = Some (JInt 100)"
    by (simp add: default_configuration_def)
  note ex = configuration_merge
    [where parse_float = Map.empty and parse_int = Map.empty and env = Map.empty
       and describe = "\<lambda>e. ''error''"
       and s = "\<lparr>detection_engine = None, detection_metrics = initial_metrics,
                 bridge_processes = []\<rparr>"
       and self = "\<lparr>config = default_configuration, is_running = False,
                    detection_thread = None\<rparr>", THEN conjunct2, THEN mp, OF h]
  then obtain r1 s1 r2 s2 where
    post: "configuration Map.empty Map.empty Map.empty (\<lambda>e. ''error'')
        (POST (Inr (JDict (fmap_of_list [(''ConfidenceThreshold'', JFloat (Finite 0.8))]))))
        \<lparr>detection_engine = None, detection_metrics = initial_metrics, bridge_processes = []\<rparr>
        = (Inr r1, s1)"
    and get: "configuration Map.empty Map.empty Map.empty (\<lambda>e. ''error'') GET s1 = (Inr r2, s2)"
    and all: "\<forall>k. member (body r2) k =
            (if k = ''ConfidenceThreshold'' then Some (JFloat (Finite 0.8))
             else fmlookup (config \<lparr>config = default_configuration, is_running = False,
                    detection_thread = None\<rparr>) k)"
    by blast
  from all have ct: "member (body r2) ''ConfidenceThreshold'' = Some (JFloat (Finite 0.8))"
    by simp
  from all fov have "member (body r2) ''FOV'' = Some (JInt 100)" by simp
  with post get ct h show ?thesis by blast
qed

section \<open>Properties of \<open>load_configuration\<close>\<close>

lemma bind_Inl [simp]: "bind (Inl e) f = Inl e"
  by (simp add: bind_def)

lemma bind_Inr [simp]: "bind (Inr x) f = f x"
  by (simp add: bind_def)

lemma env_float_ok:
  "(\<exists>x. env_float parse env v d = Inr x) \<longleftrightarrow> (\<forall>s. env v = Some s \<longrightarrow> parse s \<noteq> None)"
  by (auto simp add: env_float_def split: option.splits)

lemma env_int_ok:
  "(\<exists>x. env_int parse env v d = Inr x) \<longleftrightarrow> (\<forall>s. env v = Some s \<longrightarrow> parse s \<noteq> None)"
  by (auto simp add: env_int_def split: option.splits)

lemma env_float_error: "env_float parse env v d = Inl e \<Longrightarrow> e = ValueError"
  by (auto simp add: env_float_def split: option.splits)

lemma env_int_error: "env_int parse env v d = Inl e \<Longrightarrow> e = ValueError"
  by (auto simp add: env_int_def split: option.splits)

lemma env_float_unset: "env v = None \<Longrightarrow> env_float parse env v d = Inr (JFloat (Finite d))"
  by (simp add: env_float_def)

lemma env_int_unset: "env v = None \<Longrightarrow> env_int parse env v d = Inr (JInt d)"
  by (simp add: env_int_def)

lemma env_bool_unset_true: "env v = None \<Longrightarrow> env_bool env v ''true'' = JBool True"
  by (simp add: env_bool_def lower_def lower_char_def)

lemma env_bool_unset_false: "env v = None \<Longrightarrow> env_bool env v ''false'' = JBool False"
  by (simp add: env_bool_def lower_def lower_char_def)

lemma env_str_unset: "env v = None \<Longrightarrow> env_str env v d = JString d"
  by (simp add: env_str_def)

lemma load_configuration_result:
  "load_configuration parse_float parse_int env = Inr cfg \<longleftrightarrow>
     (\<exists>a b c d e f.
        env_float parse_float env ''CONFIDENCE_THRESHOLD'' 0.5 = Inr a \<and>
        env_float parse_float env ''MOUSE_SENSITIVITY'' 1.0 = Inr b \<and>
        env_int parse_int env ''DETECTION_INTERVAL'' 50 = Inr c \<and>
        env_int parse_int env ''FOV'' 100 = Inr d \<and>
        env_int parse_int env ''SMOOTHING_STRENGTH'' 5 = Inr e \<and>
        env_int parse_int env ''TRIGGER_DELAY'' 50 = Inr f \<and>
        cfg = fmap_of_list
          [(''ConfidenceThreshold'', a),
           (''MouseSensitivity'', b),
           (''DetectionInterval'', c),
           (''EnableESP'', env_bool env ''ENABLE_ESP'' ''true''),
           (''EnableAntiRecoil'', env_bool env ''ENABLE_ANTI_RECOIL'' ''false''),
           (''TargetProcess'', env_str env ''TARGET_PROCESS'' ''''),
           (''FOV'', d),
           (''EnableSmoothing'', env_bool env ''ENABLE_SMOOTHING'' ''true''),
           (''SmoothingStrength'', e),
           (''EnableTriggerBot'', env_bool env ''ENABLE_TRIGGER_BOT'' ''false''),
           (''TriggerDelay'', f),
           (''ModelPath'', env_str env ''MODEL_PATH'' ''Models/yolov8n.onnx''),
           (''EnableDebugMode'', env_bool env ''ENABLE_DEBUG_MODE'' ''true'')])"
  unfolding load_configuration_def
  apply (cases "env_float parse_float env ''CONFIDENCE_THRESHOLD'' 0.5")
   apply simp
  apply (cases "env_float parse_float env ''MOUSE_SENSITIVITY'' 1.0")
   apply simp
  apply (cases "env_int parse_int env ''DETECTION_INTERVAL'' 50")
   apply simp
  apply (cases "env_int parse_int env ''FOV'' 100")
   apply simp
  apply (cases "env_int parse_int env ''SMOOTHING_STRENGTH'' 5")
   apply simp
  apply (cases "env_int parse_int env ''TRIGGER_DELAY'' 50")
   apply simp
  apply auto
  done

lemma load_configuration_error:
  "load_configuration parse_float parse_int env = Inl err \<Longrightarrow> err = ValueError"
  unfolding load_configuration_def
  apply (cases "env_float parse_float env ''CONFIDENCE_THRESHOLD'' 0.5")
   apply (simp add: env_float_error)
  apply (cases "env_float parse_float env ''MOUSE_SENSITIVITY'' 1.0")
   apply (simp add: env_float_error)
  apply (cases "env_int parse_int env ''DETECTION_INTERVAL'' 50")
   apply (simp add: env_int_error)
  apply (cases "env_int parse_int env ''FOV'' 100")
   apply (simp add: env_int_error)
  apply (cases "env_int parse_int env ''SMOOTHING_STRENGTH'' 5")
   apply (simp add: env_int_error)
  apply (cases "env_int parse_int env ''TRIGGER_DELAY'' 50")
   apply (simp add: env_int_error)
  apply simp
  done

lemma load_configuration_succeeds:
  "(\<exists>cfg. load_configuration parse_float parse_int env = Inr cfg) \<longleftrightarrow>
     (\<forall>v \<in> set [''CONFIDENCE_THRESHOLD'', ''MOUSE_SENSITIVITY''].
        \<forall>s. env v = Some s \<longrightarrow> parse_float s \<noteq> None) \<and>
     (\<forall>v \<in> set [''DETECTION_INTERVAL'', ''FOV'', ''SMOOTHING_STRENGTH'', ''TRIGGER_DELAY''].
        \<forall>s. env v = Some s \<longrightarrow> parse_int s \<noteq> None)"
proof -
  have "(\<exists>cfg. load_configuration parse_float parse_int env = Inr cfg) \<longleftrightarrow>
     (\<exists>a. env_float parse_float env ''CONFIDENCE_THRESHOLD'' 0.5 = Inr a) \<and>
     (\<exists>b. env_float parse_float env ''MOUSE_SENSITIVITY'' 1.0 = Inr b) \<and>
     (\<exists>c. env_int parse_int env ''DETECTION_INTERVAL'' 50 = Inr c) \<and>
     (\<exists>d. env_int parse_int env ''FOV'' 100 = Inr d) \<and>
     (\<exists>e. env_int parse_int env ''SMOOTHING_STRENGTH'' 5 = Inr e) \<and>
     (\<exists>f. env_int parse_int env ''TRIGGER_DELAY'' 50 = Inr f)"
    unfolding load_configuration_result by blast
  then show ?thesis
    unfolding env_float_ok env_int_ok by simp
qed

lemma load_configuration_defaults:
  assumes "load_configuration parse_float parse_int env = Inr cfg"
  shows "\<forall>(v, k) \<in> set
           [(''CONFIDENCE_THRESHOLD'', ''ConfidenceThreshold''),
            (''MOUSE_SENSITIVITY'', ''MouseSensitivity''),
            (''DETECTION_INTERVAL'', ''DetectionInterval''),
            (''ENABLE_ESP'', ''EnableESP''),
            (''ENABLE_ANTI_RECOIL'', ''EnableAntiRecoil''),
            (''TARGET_PROCESS'', ''TargetProcess''),
            (''FOV'', ''FOV''),
            (''ENABLE_SMOOTHING'', ''EnableSmoothing''),
            (''SMOOTHING_STRENGTH'', ''SmoothingStrength''),
            (''ENABLE_TRIGGER_BOT'', ''EnableTriggerBot''),
            (''TRIGGER_DELAY'', ''TriggerDelay''),
            (''MODEL_PATH'', ''ModelPath''),
            (''ENABLE_DEBUG_MODE'', ''EnableDebugMode'')].
           env v = None \<longrightarrow> fmlookup cfg k = fmlookup default_configuration k"
  using assms unfolding load_configuration_result
  by (auto simp add: default_configuration_def env_float_unset env_int_unset
      env_bool_unset_true env_bool_unset_false env_str_unset)

lemma load_configuration_booleans:
  assumes "load_configuration parse_float parse_int env = Inr cfg"
  shows "\<forall>(v, k, d) \<in> set
           [(''ENABLE_ESP'', ''EnableESP'', ''true''),
            (''ENABLE_ANTI_RECOIL'', ''EnableAntiRecoil'', ''false''),
            (''ENABLE_SMOOTHING'', ''EnableSmoothing'', ''true''),
            (''ENABLE_TRIGGER_BOT'', ''EnableTriggerBot'', ''false''),
            (''ENABLE_DEBUG_MODE'', ''EnableDebugMode'', ''true'')].
           fmlookup cfg k =
             Some (JBool (lower (case env v of None \<Rightarrow> d | Some s \<Rightarrow> s) = ''true''))"
  using assms unfolding load_configuration_result
  by (auto simp add: env_bool_def)


text \<open>
  C7, as the code has it. \<open>load_configuration\<close> succeeds exactly when every numeric input
  that is set is accepted by its parser: \<open>float\<close> for \<open>CONFIDENCE_THRESHOLD\<close> and
  \<open>MOUSE_SENSITIVITY\<close>, \<open>int\<close> for \<open>DETECTION_INTERVAL\<close>, \<open>FOV\<close>,
  \<open>SMOOTHING_STRENGTH\<close> and \<open>TRIGGER_DELAY\<close>. Otherwise it raises ValueError. When it
  succeeds, every key whose input is unset has its documented default, and a boolean key is
  true exactly when its input, or its default when unset, is \<open>true\<close> once lowercased. This
  holds for whatever the two parsers accept.
\<close>

theorem load_configuration_parsable:
  "((\<exists>cfg. load_configuration parse_float parse_int env = Inr cfg) \<longleftrightarrow>
      (\<forall>v \<in> set [''CONFIDENCE_THRESHOLD'', ''MOUSE_SENSITIVITY''].
         \<forall>s. env v = Some s \<longrightarrow> parse_float s \<noteq> None) \<and>
      (\<forall>v \<in> set [''DETECTION_INTERVAL'', ''FOV'', ''SMOOTHING_STRENGTH'', ''TRIGGER_DELAY''].
         \<forall>s. env v = Some s \<longrightarrow> parse_int s \<noteq> None)) \<and>
   (\<forall>err. load_configuration parse_float parse_int env = Inl err \<longrightarrow> err = ValueError) \<and>
   (\<forall>cfg. load_configuration parse_float parse_int env = Inr cfg \<longrightarrow>
      (\<forall>(v, k) \<in> set
           [(''CONFIDENCE_THRESHOLD'', ''ConfidenceThreshold''),
            (''MOUSE_SENSITIVITY'', ''MouseSensitivity''),
            (''DETECTION_INTERVAL'', ''DetectionInterval''),
            (''ENABLE_ESP'', ''EnableESP''),
            (''ENABLE_ANTI_RECOIL'', ''EnableAntiRecoil''),
            (''TARGET_PROCESS'', ''TargetProcess''),
            (''FOV'', ''FOV''),
            (''ENABLE_SMOOTHING'', ''EnableSmoothing''),
            (''SMOOTHING_STRENGTH'', ''SmoothingStrength''),
            (''ENABLE_TRIGGER_BOT'', ''EnableTriggerBot''),
            (''TRIGGER_DELAY'', ''TriggerDelay''),
            (''MODEL_PATH'', ''ModelPath''),
            (''ENABLE_DEBUG_MODE'', ''EnableDebugMode'')].
           env v = None \<longrightarrow> fmlookup cfg k = fmlookup default_configuration k) \<and>
      (\<forall>(v, k, d) \<in> set
           [(''ENABLE_ESP'', ''EnableESP'', ''true''),
            (''ENABLE_ANTI_RECOIL'', ''EnableAntiRecoil'', ''false''),
            (''ENABLE_SMOOTHING'', ''EnableSmoothing'', ''true''),
            (''ENABLE_TRIGGER_BOT'', ''EnableTriggerBot'', ''false''),
            (''ENABLE_DEBUG_MODE'', ''EnableDebugMode'', ''true'')].
           fmlookup cfg k =
             Some (JBool (lower (case env v of None \<Rightarrow> d | Some s \<Rightarrow> s) = ''true''))))"
  using load_configuration_succeeds [of parse_float parse_int env]
    load_configuration_error [of parse_float parse_int env]
    load_configuration_defaults [of parse_float parse_int env]
    load_configuration_booleans [of parse_float parse_int env]
  by blast

text \<open>
  An environment that sets \<open>FOV\<close> to \<open>90\<close> and \<open>ENABLE_DEBUG_MODE\<close> to \<open>TRUE\<close>:
  \<open>int('90')\<close> is 90, which is the one entry of the table of \<open>int\<close>, and no string is
  given to \<open>float\<close>.
\<close>

theorem load_configuration_parsable_witness:
  "[''90'' \<mapsto> 90 :: int] ''90'' = Some 90 \<and>
   map_sum id
     (\<lambda>cfg. (fmlookup cfg ''FOV'', fmlookup cfg ''EnableDebugMode'',
             fmlookup cfg ''DetectionInterval''))
     (load_configuration Map.empty [''90'' \<mapsto> 90]
        [''FOV'' \<mapsto> ''90'', ''ENABLE_DEBUG_MODE'' \<mapsto> ''TRUE'']) =
     Inr (Some (JInt 90), Some (JBool True), fmlookup default_configuration ''DetectionInterval'')"
  using load_configuration_parsable
    [of Map.empty "[''90'' \<mapsto> 90]" "[''FOV'' \<mapsto> ''90'', ''ENABLE_DEBUG_MODE'' \<mapsto> ''TRUE'']"]
  by (simp add: load_configuration_def env_float_def env_int_def env_bool_def
      default_configuration_def lower_def lower_char_def)

text \<open>
  The claim as the specification states it fails: a numeric input that does not parse
  raises ValueError instead of giving the default, and a boolean input other than
  \<open>true\<close> gives False also where the default is True. In the first environment
  \<open>DETECTION_INTERVAL\<close> is \<open>fast\<close>, the one string given to a parser; \<open>int('fast')\<close>
  raises ValueError, so the table of \<open>int\<close> has no entry. In the second environment
  \<open>ENABLE_ESP\<close> is \<open>yes\<close> and no string is given to a parser.
\<close>

theorem load_configuration_counterexample:
  "load_configuration Map.empty Map.empty [''DETECTION_INTERVAL'' \<mapsto> ''fast''] =
     Inl ValueError \<and>
   fmlookup default_configuration ''EnableESP'' = Some (JBool True) \<and>
   map_sum id (\<lambda>cfg. fmlookup cfg ''EnableESP'')
     (load_configuration Map.empty Map.empty [''ENABLE_ESP'' \<mapsto> ''yes'']) =
     Inr (Some (JBool False))"
  by (simp add: load_configuration_def env_float_def env_int_def env_bool_def
      default_configuration_def lower_def lower_char_def)

section \<open>Properties of start and stop\<close>

lemma step_live:
  assumes "length (live (snd s)) \<le> 1"
    and "a = CallStart \<and> \<not> is_running (fst s) \<longrightarrow> live (snd s) = []"
  shows "length (live (snd (step a s))) \<le> 1"
proof (cases s)
  case (Pair self t)
  show ?thesis
  proof (cases a)
    case CallStart
    with assms Pair show ?thesis by (simp add: start_detection_def)
  next
    case CallStop
    with assms Pair show ?thesis by (simp add: stop_detection_def)
  next
    case (LoopTest tid)
    have rm: "length (removeAll tid (live t)) \<le> length (live t)"
      by (rule length_removeAll_less_eq)
    from assms(1) Pair have "length (live t) \<le> 1" by simp
    with rm have "length (removeAll tid (live t)) \<le> 1" by (rule le_trans)
    with assms(1) Pair LoopTest show ?thesis by (simp add: loop_test_def)
  qed
qed

lemma run_live:
  "length (live (snd s)) \<le> 1 \<Longrightarrow> settled as s \<Longrightarrow> length (live (snd (run as s))) \<le> 1"
proof (induction as arbitrary: s)
  case Nil
  then show ?case by simp
next
  case (Cons a as)
  from Cons.prems have "length (live (snd (step a s))) \<le> 1"
    by (intro step_live) simp_all
  moreover from Cons.prems have "settled as (step a s)" by simp
  ultimately show ?case using Cons.IH by simp
qed

text \<open>
  C1, as the code has it. \<open>start_detection\<close> on a running engine answers with a failure
  and \<open>Detection already running\<close>, \<open>stop_detection\<close> on a stopped engine answers with
  a failure and \<open>Detection not running\<close>, and each leaves the engine and the loop threads
  exactly as they were. On a stopped engine \<open>start_detection\<close> sets the flag and starts
  one thread; on a running engine \<open>stop_detection\<close> clears the flag. At most one loop is
  alive at any time of a schedule in which every successful start finds no earlier loop
  alive, that is, in which a stopped loop has tested its flag before the engine is started
  again.
\<close>

theorem start_stop_errors:
  "(is_running self \<longrightarrow>
      start_detection self t =
        (\<lparr>success = False, message = ''Detection already running''\<rparr>, self, t)) \<and>
   (\<not> is_running self \<longrightarrow>
      stop_detection self t =
        (\<lparr>success = False, message = ''Detection not running''\<rparr>, self, t)) \<and>
   (\<not> is_running self \<longrightarrow>
      start_detection self t =
        (\<lparr>success = True, message = ''Detection started successfully''\<rparr>,
         self\<lparr>is_running := True, detection_thread := Some (created t)\<rparr>,
         t\<lparr>live := live t @ [created t], created := Suc (created t)\<rparr>)) \<and>
   (is_running self \<longrightarrow>
      stop_detection self t =
        (\<lparr>success = True, message = ''Detection stopped successfully''\<rparr>,
         self\<lparr>is_running := False\<rparr>, t)) \<and>
   (length (live (snd s)) \<le> 1 \<and> settled as s \<longrightarrow> length (live (snd (run as s))) \<le> 1)"
  using run_live [of s as] by (simp add: start_detection_def stop_detection_def)

theorem start_stop_errors_witness:
  "is_running \<lparr>config = default_configuration, is_running = True, detection_thread = Some 0\<rparr> \<and>
   start_detection
     \<lparr>config = default_configuration, is_running = True, detection_thread = Some 0\<rparr>
     \<lparr>live = [0], created = 1\<rparr> =
     (\<lparr>success = False, message = ''Detection already running''\<rparr>,
      \<lparr>config = default_configuration, is_running = True, detection_thread = Some 0\<rparr>,
      \<lparr>live = [0], created = 1\<rparr>) \<and>
   \<not> is_running \<lparr>config = default_configuration, is_running = False, detection_thread = None\<rparr> \<and>
   stop_detection
     \<lparr>config = default_configuration, is_running = False, detection_thread = None\<rparr>
     initial_threads =
     (\<lparr>success = False, message = ''Detection not running''\<rparr>,
      \<lparr>config = default_configuration, is_running = False, detection_thread = None\<rparr>,
      initial_threads) \<and>
   length (live (snd
     (\<lparr>config = default_configuration, is_running = False, detection_thread = None\<rparr>,
      initial_threads))) \<le> 1 \<and>
   settled [CallStart, CallStart, CallStop, CallStop, LoopTest 0, CallStart]
     (\<lparr>config = default_configuration, is_running = False, detection_thread = None\<rparr>,
      initial_threads) \<and>
   run [CallStart, CallStart, CallStop, CallStop, LoopTest 0, CallStart]
     (\<lparr>config = default_configuration, is_running = False, detection_thread = None\<rparr>,
      initial_threads) =
     (\<lparr>config = default_configuration, is_running = True, detection_thread = Some 1\<rparr>,
      \<lparr>live = [1], created = 2\<rparr>) \<and>
   length (live (snd (run [CallStart, CallStart, CallStop, CallStop, LoopTest 0, CallStart]
     (\<lparr>config = default_configuration, is_running = False, detection_thread = None\<rparr>,
      initial_threads)))) \<le> 1"
  using start_stop_errors
    [where self = "\<lparr>config = default_configuration, is_running = True,
                    detection_thread = Some 0\<rparr>"
       and t = "\<lparr>live = [0], created = 1\<rparr>"
       and s = "(\<lparr>config = default_configuration, is_running = False,
                  detection_thread = None\<rparr>, initial_threads)"
       and as = "[CallStart, CallStart, CallStop, CallStop, LoopTest 0, CallStart]"]
    start_stop_errors
    [where self = "\<lparr>config = default_configuration, is_running = False,
                    detection_thread = None\<rparr>"
       and t = initial_threads]
  by (simp add: start_detection_def stop_detection_def loop_test_def initial_threads_def)

text \<open>
  Without that condition the claim fails. \<open>stop_detection\<close> waits for the loop for one
  second at most, and a loop tests the flag once per iteration, after a sleep of
  \<open>DetectionInterval\<close> milliseconds that the configuration sets freely. A start that
  follows a stop before the old loop has tested the flag sets the flag again and starts a
  second thread; the old loop then finds the flag set and goes on, so two loops are alive
  and both stay.
\<close>

theorem single_loop_counterexample:
  "run [CallStart, CallStop, CallStart]
     (\<lparr>config = default_configuration, is_running = False, detection_thread = None\<rparr>,
      initial_threads) =
     (\<lparr>config = default_configuration, is_running = True, detection_thread = Some 1\<rparr>,
      \<lparr>live = [0, 1], created = 2\<rparr>) \<and>
   \<not> length (live (snd (run [CallStart, CallStop, CallStart]
     (\<lparr>config = default_configuration, is_running = False, detection_thread = None\<rparr>,
      initial_threads)))) \<le> 1 \<and>
   loop_test 0
     \<lparr>config = default_configuration, is_running = True, detection_thread = Some 1\<rparr>
     \<lparr>live = [0, 1], created = 2\<rparr> = \<lparr>live = [0, 1], created = 2\<rparr>"
  by (simp add: start_detection_def stop_detection_def loop_test_def initial_threads_def)

end
